theory Spec2Isabelle
  imports Complex_Main "HOL-Library.Word" "HOL-Library.Multiset"
    "HOL-Library.Product_Lexorder" "HOL-Library.Sublist"
begin

section \<open>JavaScript strings\<close>

text \<open>
  A JavaScript string is a sequence of UTF-16 code units. The regular expressions of the
  key derivation carry no \<open>u\<close> flag, so they match single code units, and
  \<open>substring\<close> counts code units.
\<close>

type_synonym jsstring = "16 word list"

text \<open>An ASCII literal of the source, as code units.\<close>

definition ascii :: "string \<Rightarrow> jsstring" where
  "ascii s = map (\<lambda>c. of_nat (of_char c)) s"

text \<open>\<^verbatim>\<open>s.replace(/x/g, 'y')\<close> for a one-unit pattern \<open>x\<close> and a one-unit replacement \<open>y\<close>.\<close>

definition replaceAll :: "16 word \<Rightarrow> 16 word \<Rightarrow> jsstring \<Rightarrow> jsstring" where
  "replaceAll x y s = map (\<lambda>u. if u = x then y else u) s"

text \<open>The character class \<^verbatim>\<open>[a-z]\<close>: the code units U+0061 to U+007A.\<close>

definition is_az :: "16 word \<Rightarrow> bool" where
  "is_az u = (0x61 \<le> u \<and> u \<le> 0x7A)"

text \<open>\<^verbatim>\<open>s.replace(/[^a-z]/g, '')\<close>: every unit outside the class is dropped.\<close>

definition strip_non_az :: "jsstring \<Rightarrow> jsstring" where
  "strip_non_az s = filter is_az s"

text \<open>\<^verbatim>\<open>s.substring(0, n)\<close> for a literal \<open>n \<ge> 0\<close>.\<close>

definition substring0 :: "nat \<Rightarrow> jsstring \<Rightarrow> jsstring" where
  "substring0 n s = take n s"

section \<open>Key derivation\<close>

text \<open>
  \<open>String.prototype.toLowerCase\<close> belongs to the JavaScript runtime, not to the
  repository: the three derivations take it as the parameter \<open>toLowerCase\<close>.

  \<open>scripts/lithuanian-tts-client.js\<close>, \<open>LithuanianTTSClient.generateTextKey\<close>. Its
  \<open>console.log\<close> of the argument does not touch the result.
\<close>

definition client_generateTextKey :: "(jsstring \<Rightarrow> jsstring) \<Rightarrow> jsstring \<Rightarrow> jsstring" where
  "client_generateTextKey toLowerCase text =
     substring0 50 (strip_non_az
       (replaceAll 0x17E 0x7A
       (replaceAll 0x16B 0x75
       (replaceAll 0x173 0x75
       (replaceAll 0x161 0x73
       (replaceAll 0x12F 0x69
       (replaceAll 0x117 0x65
       (replaceAll 0x119 0x65
       (replaceAll 0x10D 0x63
       (replaceAll 0x105 0x61
       (toLowerCase text)))))))))))"

text \<open>The main server's \<open>generateTextKey\<close> (the file that serves \<open>/audio_cache\<close>).\<close>

definition server_generateTextKey :: "(jsstring \<Rightarrow> jsstring) \<Rightarrow> jsstring \<Rightarrow> jsstring" where
  "server_generateTextKey toLowerCase text =
     substring0 50 (strip_non_az
       (replaceAll 0x17E 0x7A
       (replaceAll 0x16B 0x75
       (replaceAll 0x173 0x75
       (replaceAll 0x161 0x73
       (replaceAll 0x12F 0x69
       (replaceAll 0x117 0x65
       (replaceAll 0x119 0x65
       (replaceAll 0x10D 0x63
       (replaceAll 0x105 0x61
       (toLowerCase text)))))))))))"

text \<open>\<open>generateTextKey\<close> of \<open>texttospeech/get_sound.js\<close>, used by the TTS server.\<close>

definition generateTextKey :: "(jsstring \<Rightarrow> jsstring) \<Rightarrow> jsstring \<Rightarrow> jsstring" where
  "generateTextKey toLowerCase text =
     substring0 50 (strip_non_az
       (replaceAll 0x17E 0x7A
       (replaceAll 0x16B 0x75
       (replaceAll 0x173 0x75
       (replaceAll 0x161 0x73
       (replaceAll 0x12F 0x69
       (replaceAll 0x117 0x65
       (replaceAll 0x119 0x65
       (replaceAll 0x10D 0x63
       (replaceAll 0x105 0x61
       (toLowerCase text)))))))))))"

text \<open>
  A lower-casing for concrete runs: on strings over Basic Latin and the Lithuanian
  alphabet it is what \<open>toLowerCase\<close> computes (A-Z to a-z, and the nine capital
  Lithuanian letters to their small forms); other units are left alone.
\<close>

definition lower_unit :: "16 word \<Rightarrow> 16 word" where
  "lower_unit u =
     (if 0x41 \<le> u \<and> u \<le> 0x5A then u + 0x20
      else if u = 0x104 \<or> u = 0x10C \<or> u = 0x118 \<or> u = 0x116 \<or> u = 0x12E
           \<or> u = 0x160 \<or> u = 0x172 \<or> u = 0x16A \<or> u = 0x17D then u + 1
      else u)"

definition lowerLT :: "jsstring \<Rightarrow> jsstring" where
  "lowerLT s = map lower_unit s"

text \<open>The text "\<open>A\<close>-ogonek \<open>z\<close>-caron \<open>uolas\<close>" (oak), in code units.\<close>

definition azuolas :: jsstring where
  "azuolas = [0x104, 0x17E, 0x75, 0x6F, 0x6C, 0x61, 0x73]"

section \<open>Vocabulary words and JavaScript helpers\<close>

text \<open>
  Instants are milliseconds since the epoch (the source keeps them as ISO strings and
  rebuilds \<open>Date\<close> objects from them); levels and counters are integers.
  \<open>lastReviewed\<close> is \<open>null\<close> until the first review.
\<close>

record srsData =
  level :: int
  nextReview :: int
  totalReviews :: int
  correctAnswers :: int
  lastReviewed :: "int option"

text \<open>
  A vocabulary entry as \<open>addWord\<close> builds it. The fields \<open>partOfSpeech\<close>,
  \<open>exampleSentence\<close>, \<open>sentenceTranslation\<close>, \<open>difficulty\<close>, \<open>dateAdded\<close> and
  \<open>tags\<close> are never read or written by the functions below and are left out.
\<close>

record vocab_word =
  wordId :: jsstring
  lithuanian :: jsstring
  english :: jsstring
  srs :: srsData

text \<open>\<^verbatim>\<open>xs[i]\<close>: \<open>undefined\<close> (here \<open>None\<close>) outside the array.\<close>

definition at_index :: "'a list \<Rightarrow> int \<Rightarrow> 'a option" where
  "at_index xs i = (if 0 \<le> i \<and> i < int (length xs) then Some (xs ! nat i) else None)"

text \<open>\<^verbatim>\<open>a || b\<close> on a number that may be \<open>undefined\<close>: \<open>undefined\<close> and 0 are falsy.\<close>

definition or_else :: "int option \<Rightarrow> int \<Rightarrow> int" where
  "or_else a b = (case a of None \<Rightarrow> b | Some v \<Rightarrow> if v = 0 then b else v)"

text \<open>
  \<^verbatim>\<open>d.setDate(d.getDate() + n)\<close> on an instant: \<open>n\<close> calendar days later, taken as
  \<open>n\<close> times 24 hours (no daylight-saving shift).
\<close>

definition addDays :: "int \<Rightarrow> int \<Rightarrow> int" where
  "addDays t n = t + n * 86400000"

text \<open>Decimal digits of a length, as a template literal prints it.\<close>

function decimal :: "nat \<Rightarrow> jsstring" where
  "decimal n = (if n < 10 then [of_nat (48 + n)]
                else decimal (n div 10) @ [of_nat (48 + n mod 10)])"
  by pat_completeness auto
termination
  by (relation "measure id") auto

text \<open>
  \<open>Array.prototype.sort(compare)\<close>: a stable sort (ECMAScript 2019), here by
  insertion. An element goes in front of the first one it does not compare greater than,
  and the elements are inserted from the last to the first. For a comparator that is a
  total preorder, as \<open>compareWords\<close> below, every stable sort gives this result.
\<close>

fun js_insert :: "('a \<Rightarrow> 'a \<Rightarrow> int) \<Rightarrow> 'a \<Rightarrow> 'a list \<Rightarrow> 'a list" where
  "js_insert cmp x [] = [x]"
| "js_insert cmp x (y # ys) = (if cmp x y \<le> 0 then x # y # ys else y # js_insert cmp x ys)"

definition js_sort :: "('a \<Rightarrow> 'a \<Rightarrow> int) \<Rightarrow> 'a list \<Rightarrow> 'a list" where
  "js_sort cmp xs = foldr (js_insert cmp) xs []"

text \<open>
  \<^verbatim>\<open>xs.slice(0, e)\<close> for an integer \<open>e\<close>: a negative end counts from the end of the
  array, and the end is clamped to the array.
\<close>

definition slice0 :: "'a list \<Rightarrow> int \<Rightarrow> 'a list" where
  "slice0 xs e =
     (let len = int (length xs);
          final = (if e < 0 then max (len + e) 0 else min e len)
      in take (nat final) xs)"

section \<open>SRSSystem\<close>

definition intervals :: "int list" where
  "intervals = [1, 2, 4, 8, 16, 32, 64, 128, 256, 512]"

definition maxLevel :: int where
  "maxLevel = 10"

record review =
  newLevel :: int
  nextReviewDate :: int
  intervalDays :: int

text \<open>
  \<open>calculateNextReview(currentLevel, correct, streakMultiplier)\<close>, with the clock
  reading \<open>now\<close> of its \<open>new Date()\<close>. The multiplier is a real number: the base
  intervals are powers of two, so the product is exact in double precision.
\<close>

definition calculateNextReview :: "int \<Rightarrow> int \<Rightarrow> bool \<Rightarrow> real \<Rightarrow> review" where
  "calculateNextReview now currentLevel correct streakMultiplier =
     (let newLevel = (if correct then min (currentLevel + 1) maxLevel
                      else max 1 (currentLevel - 2));
          baseInterval = or_else (at_index intervals (newLevel - 1))
                           (intervals ! (length intervals - 1));
          actualInterval = \<lfloor>real_of_int baseInterval * streakMultiplier\<rfloor>
      in \<lparr>newLevel = newLevel,
          nextReviewDate = addDays now actualInterval,
          intervalDays = actualInterval\<rparr>)"

text \<open>The comparator of \<open>suggestStudySession\<close>: level first, then due date.\<close>

definition compareWords :: "vocab_word \<Rightarrow> vocab_word \<Rightarrow> int" where
  "compareWords a b =
     (if level (srs a) \<noteq> level (srs b) then level (srs a) - level (srs b)
      else nextReview (srs a) - nextReview (srs b))"

text \<open>
  Arrays are objects: \<open>sort\<close> reorders the array it is called on and returns that same
  array, \<open>slice\<close> returns a new one. The store maps the address of an array to its
  elements; the addresses below \<open>next_addr\<close> are the live ones.
\<close>

type_synonym addr = nat

record heap =
  arrays :: "addr \<Rightarrow> vocab_word list"
  next_addr :: addr

definition alloc :: "vocab_word list \<Rightarrow> heap \<Rightarrow> addr \<times> heap" where
  "alloc xs h =
     (next_addr h, h\<lparr>arrays := (arrays h)(next_addr h := xs), next_addr := Suc (next_addr h)\<rparr>)"

text \<open>\<^verbatim>\<open>a.sort(cmp)\<close>: in place; the value of the call is \<open>a\<close> itself.\<close>

definition sort_in_place :: "(vocab_word \<Rightarrow> vocab_word \<Rightarrow> int) \<Rightarrow> addr \<Rightarrow> heap \<Rightarrow> addr \<times> heap" where
  "sort_in_place cmp a h = (a, h\<lparr>arrays := (arrays h)(a := js_sort cmp (arrays h a))\<rparr>)"

text \<open>The object \<open>suggestStudySession\<close> returns; the early return has no \<open>totalDue\<close>.\<close>

record session =
  recommended :: addr
  totalDue :: "nat option"
  message :: jsstring

definition suggestStudySession :: "heap \<Rightarrow> addr \<Rightarrow> int \<Rightarrow> session \<times> heap" where
  "suggestStudySession h dueWords targetSessionLength =
     (if length (arrays h dueWords) = 0 then
        (let (r, h1) = alloc [] h
         in (\<lparr>recommended = r, totalDue = None,
              message = ascii ''No words due for review! Great job staying on track.''\<rparr>, h1))
      else
        (let (sorted, h1) = sort_in_place compareWords dueWords h;
             (r, h2) = alloc (slice0 (arrays h1 sorted) targetSessionLength) h1;
             n = length (arrays h2 r);
             due = length (arrays h2 dueWords);
             message = decimal n @ ascii '' words ready for review.'';
             message = (if int due > targetSessionLength
                        then message @ ascii '' '' @ decimal (nat (int due - targetSessionLength))
                               @ ascii '' more words are also due.''
                        else message)
         in (\<lparr>recommended = r, totalDue = Some due, message = message\<rparr>, h2)))"

section \<open>VocabularyData\<close>

text \<open>
  The instance: its \<open>words\<close> array, the item \<open>vocabularyWords\<close> of \<open>localStorage\<close>
  (\<open>None\<close> when never written) and the \<open>dataInitialized\<close> flag.
\<close>

record vocabularyData =
  words :: "vocab_word list"
  stored :: "vocab_word list option"
  dataInitialized :: bool

definition saveWords :: "vocabularyData \<Rightarrow> vocabularyData" where
  "saveWords v = v\<lparr>stored := Some (words v)\<rparr>"

text \<open>
  \<^verbatim>\<open>xs.find(p)\<close> followed by writes to the object found: the first element that
  satisfies \<open>p\<close> is the one changed.
\<close>

fun update_first :: "('a \<Rightarrow> bool) \<Rightarrow> ('a \<Rightarrow> 'a) \<Rightarrow> 'a list \<Rightarrow> 'a list" where
  "update_first p f [] = []"
| "update_first p f (x # xs) = (if p x then f x # xs else x # update_first p f xs)"

text \<open>The writes of \<open>updateWordSRS\<close> to the \<open>srsData\<close> of the word found.\<close>

definition reviewed :: "int \<Rightarrow> bool \<Rightarrow> srsData \<Rightarrow> srsData" where
  "reviewed now correct s =
     (let s1 = s\<lparr>totalReviews := totalReviews s + 1, lastReviewed := Some now\<rparr>;
          s2 = (if correct
                then s1\<lparr>correctAnswers := correctAnswers s1 + 1,
                        level := min (level s1 + 1) 10\<rparr>
                else s1\<lparr>level := max (level s1 - 1) 1\<rparr>);
          daysUntilNext = or_else (at_index [1, 2, 4, 8, 16, 32, 64, 128, 256, 512] (level s2 - 1)) 512
      in s2\<lparr>nextReview := addDays now daysUntilNext\<rparr>)"

text \<open>
  \<open>updateWordSRS(wordId, correct)\<close> at the clock reading \<open>now\<close>: the returned boolean
  and the instance afterwards.
\<close>

definition updateWordSRS :: "int \<Rightarrow> vocabularyData \<Rightarrow> jsstring \<Rightarrow> bool \<Rightarrow> bool \<times> vocabularyData" where
  "updateWordSRS now v wid correct =
     (case find (\<lambda>w. wordId w = wid) (words v) of
        None \<Rightarrow> (False, v)
      | Some word \<Rightarrow>
          (True,
           saveWords (v\<lparr>words := update_first (\<lambda>w. wordId w = wid)
                                   (\<lambda>w. w\<lparr>srs := reviewed now correct (srs w)\<rparr>) (words v)\<rparr>)))"

section \<open>LithuanianTTSClient\<close>

text \<open>
  What a \<open>/tts/generate\<close> request comes back with: the \<open>fetch\<close> rejects, or there is
  a response with its \<open>ok\<close> flag and a body; the body fails to parse as JSON, or it is
  an object with \<open>success\<close> and \<open>audioUrl\<close>.
\<close>

datatype json_body = BadJson | Body bool jsstring

datatype gen_response = FetchFailed | Status bool json_body

text \<open>
  A body with \<open>success\<close> true is taken to carry its \<open>audioUrl\<close>.

  The world outside the client during one call: the runtime's \<open>toLowerCase\<close>, the
  answer to a \<open>HEAD\<close> request on a URL (\<open>None\<close>: the \<open>fetch\<close> rejects, \<open>Some ok\<close>:
  the response's \<open>ok\<close>), the answer of \<open>server/tts/generate?text&force\<close>, whether a
  URL plays to its end, whether the browser has \<open>speechSynthesis\<close>, and the clock
  (\<open>Date.now()\<close>), which no method of the client reads.
\<close>

record world =
  lowercase :: "jsstring \<Rightarrow> jsstring"
  head_ok :: "jsstring \<Rightarrow> bool option"
  generate :: "jsstring \<Rightarrow> jsstring \<Rightarrow> bool \<Rightarrow> gen_response"
  playable :: "jsstring \<Rightarrow> bool"
  speechSynthesis :: bool
  clock :: int

text \<open>What a call does to the outside, in order.\<close>

datatype event =
  Head jsstring
| Generate jsstring jsstring bool
| Play jsstring
| BrowserSpeak jsstring

datatype error = AllServersUnavailable | PlaybackFailed | AudioUnavailable

text \<open>The instance; \<open>cache\<close> is the \<open>Map\<close> from text key to audio URL.\<close>

record client =
  serverUrl :: jsstring
  fallbackUrl :: jsstring
  cache :: "jsstring \<Rightarrow> jsstring option"
  usesFallback :: bool

definition ttsUrl :: "world \<Rightarrow> client \<Rightarrow> jsstring \<Rightarrow> jsstring" where
  "ttsUrl w c text =
     serverUrl c @ ascii ''/'' @ client_generateTextKey (lowercase w) text @ ascii ''.mp3''"

definition cacheUrl :: "world \<Rightarrow> client \<Rightarrow> jsstring \<Rightarrow> jsstring" where
  "cacheUrl w c text =
     fallbackUrl c @ ascii ''/audio_cache/'' @ client_generateTextKey (lowercase w) text
       @ ascii ''.mp3''"

text \<open>
  \<open>checkCacheDirectly(text)\<close>: a \<open>HEAD\<close> request to the TTS server, then one to the
  main server; a rejected \<open>fetch\<close> is caught and counts as a miss.
\<close>

definition checkCacheDirectly :: "world \<Rightarrow> client \<Rightarrow> jsstring \<Rightarrow> jsstring option \<times> event list" where
  "checkCacheDirectly w c text =
     (if head_ok w (ttsUrl w c text) = Some True
      then (Some (ttsUrl w c text), [Head (ttsUrl w c text)])
      else if head_ok w (cacheUrl w c text) = Some True
      then (Some (cacheUrl w c text), [Head (ttsUrl w c text), Head (cacheUrl w c text)])
      else (None, [Head (ttsUrl w c text), Head (cacheUrl w c text)]))"

text \<open>
  The URL a server's answer yields: none when the \<open>fetch\<close> rejects, the status is not
  \<open>ok\<close>, the body does not parse, or \<open>success\<close> is false (each is a \<open>continue\<close>).
\<close>

fun accepted :: "gen_response \<Rightarrow> jsstring option" where
  "accepted (Status True (Body True audioUrl)) = Some audioUrl"
| "accepted _ = None"

text \<open>The \<open>for (const server of servers)\<close> loop of \<open>getAudioUrl\<close>.\<close>

fun try_servers ::
  "world \<Rightarrow> client \<Rightarrow> jsstring \<Rightarrow> jsstring \<Rightarrow> bool \<Rightarrow> jsstring list
     \<Rightarrow> (error + jsstring) \<times> client \<times> event list" where
  "try_servers w c cacheKey text force [] = (Inl AllServersUnavailable, c, [])"
| "try_servers w c cacheKey text force (server # servers) =
     (case accepted (generate w server text force) of
        Some audioUrl \<Rightarrow>
          (Inr audioUrl,
           c\<lparr>cache := (cache c)(cacheKey \<mapsto> audioUrl), usesFallback := (server = fallbackUrl c)\<rparr>,
           [Generate server text force])
      | None \<Rightarrow>
          (let (r, c', evs) = try_servers w c cacheKey text force servers
           in (r, c', Generate server text force # evs)))"

definition getAudioUrl ::
  "world \<Rightarrow> client \<Rightarrow> jsstring \<Rightarrow> bool \<Rightarrow> (error + jsstring) \<times> client \<times> event list" where
  "getAudioUrl w c text forceRegenerate =
     (let cacheKey = client_generateTextKey (lowercase w) text
      in case (if forceRegenerate then None else cache c cacheKey) of
           Some url \<Rightarrow> (Inr url, c, [])
         | None \<Rightarrow> try_servers w c cacheKey text forceRegenerate [serverUrl c, fallbackUrl c])"

definition playAudio :: "world \<Rightarrow> jsstring \<Rightarrow> (error + unit) \<times> event list" where
  "playAudio w audioUrl =
     (if playable w audioUrl then Inr () else Inl PlaybackFailed, [Play audioUrl])"

text \<open>
  \<open>speak(text, forceRegenerate)\<close>. Whatever is thrown inside the \<open>try\<close> is caught and
  rethrown as the one error "Audio is not available right now", here \<open>AudioUnavailable\<close>.
\<close>

definition unavailable :: "(error + unit) \<Rightarrow> (error + unit)" where
  "unavailable r = (case r of Inl e \<Rightarrow> Inl AudioUnavailable | Inr u \<Rightarrow> Inr u)"

definition speak ::
  "world \<Rightarrow> client \<Rightarrow> jsstring \<Rightarrow> bool \<Rightarrow> (error + unit) \<times> client \<times> event list" where
  "speak w c text forceRegenerate =
     (let (cachedUrl, ev1) = (if forceRegenerate then (None, [])
                              else checkCacheDirectly w c text)
      in case cachedUrl of
           Some url \<Rightarrow>
             (let (played, ev2) = playAudio w url
              in (unavailable played, c, ev1 @ ev2))
         | None \<Rightarrow>
             (let (r, c', ev2) = getAudioUrl w c text forceRegenerate
              in case r of
                   Inl e \<Rightarrow> (Inl AudioUnavailable, c', ev1 @ ev2)
                 | Inr audioUrl \<Rightarrow>
                     (let (played, ev3) = playAudio w audioUrl
                      in (unavailable played, c', ev1 @ ev2 @ ev3))))"

text \<open>\<open>fallbackSpeak(text)\<close>: the browser's own voice, when there is one.\<close>

definition fallbackSpeak :: "world \<Rightarrow> jsstring \<Rightarrow> event list" where
  "fallbackSpeak w text = (if speechSynthesis w then [BrowserSpeak text] else [])"

section \<open>The TTS server's cache (get\_sound.js)\<close>

type_synonym audio = "8 word list"

text \<open>
  An entry of \<open>cache_index.json\<close> (its \<open>voice\<close> and \<open>speakingRate\<close> are the fixed
  defaults on the paths below).
\<close>

record cacheEntry =
  originalText :: jsstring
  filename :: jsstring
  generatedAt :: int
  fileSize :: nat

text \<open>
  The cache directory: its files by name, and the object \<open>loadAudioCache\<close> returns (the
  parsed \<open>cache_index.json\<close>, or \<open>{}\<close> when the file is missing or does not parse).
\<close>

record disk =
  files :: "jsstring \<Rightarrow> audio option"
  cache_index :: "jsstring \<Rightarrow> cacheEntry option"

text \<open>
  The outside of the server: the runtime's \<open>toLowerCase\<close>, the cloud's answer to
  \<open>synthesizeSpeech\<close> (\<open>None\<close>: it throws), whether a write to a file of the cache
  directory succeeds, and the clock.
\<close>

record server_env =
  srv_lowercase :: "jsstring \<Rightarrow> jsstring"
  synthesizeSpeech :: "jsstring \<Rightarrow> audio option"
  writable :: "jsstring \<Rightarrow> bool"
  srv_clock :: int

text \<open>
  What a run does and logs: a \<open>synthesizeSpeech\<close> request for a text (the paid call),
  the index that could not be saved, the item whose generation failed.
\<close>

datatype srv_event = Synthesize jsstring | IndexNotSaved | GenerationFailed jsstring

datatype srv_error = SynthesisError | WriteError

text \<open>
  \<^verbatim>\<open>cache[textKey]\<close> is truthy for an entry of the index, and also for a key that
  names a property every object inherits; the only such name in a-z is \<open>constructor\<close>.
\<close>

definition index_truthy :: "(jsstring \<Rightarrow> cacheEntry option) \<Rightarrow> jsstring \<Rightarrow> bool" where
  "index_truthy idx k = (idx k \<noteq> None \<or> k = ascii ''constructor'')"

definition mp3 :: "jsstring \<Rightarrow> jsstring" where
  "mp3 textKey = textKey @ ascii ''.mp3''"

definition file_exists :: "disk \<Rightarrow> jsstring \<Rightarrow> bool" where
  "file_exists d name = (files d name \<noteq> None)"

text \<open>\<open>saveAudioCache(cache)\<close>: a failed write is caught and logged.\<close>

definition saveAudioCache ::
  "server_env \<Rightarrow> (jsstring \<Rightarrow> cacheEntry option) \<Rightarrow> disk \<Rightarrow> disk \<times> srv_event list" where
  "saveAudioCache env idx d =
     (if writable env (ascii ''cache_index.json'') then (d\<lparr>cache_index := idx\<rparr>, [])
      else (d, [IndexNotSaved]))"

definition defaultText :: jsstring where
  "defaultText = ascii ''Labas rytas! Kaip sekasi?''"

text \<open>
  \<open>quickStart(inputText, {cacheDir, forceRegenerate})\<close> with the default voice and
  audio configuration: the path of the audio file or the error thrown, the directory
  afterwards, and what happened. An empty \<open>inputText\<close> is falsy and replaced by the
  default text.
\<close>

definition quickStart ::
  "server_env \<Rightarrow> disk \<Rightarrow> jsstring \<Rightarrow> bool \<Rightarrow> (srv_error + jsstring) \<times> disk \<times> srv_event list" where
  "quickStart env d inputText forceRegenerate =
     (let text = (if inputText = [] then defaultText else inputText);
          textKey = generateTextKey (srv_lowercase env) text;
          filepath = ascii ''../audio_cache/'' @ mp3 textKey;
          idx = cache_index d
      in if \<not> forceRegenerate \<and> index_truthy idx textKey \<and> file_exists d (mp3 textKey)
         then (Inr filepath, d, [])
         else case synthesizeSpeech env text of
                None \<Rightarrow> (Inl SynthesisError, d, [Synthesize text])
              | Some audioContent \<Rightarrow>
                  if \<not> writable env (mp3 textKey) then (Inl WriteError, d, [Synthesize text])
                  else
                    (let d1 = d\<lparr>files := (files d)(mp3 textKey \<mapsto> audioContent)\<rparr>;
                         idx1 = idx(textKey \<mapsto>
                                  \<lparr>originalText = text, filename = mp3 textKey,
                                   generatedAt = srv_clock env,
                                   fileSize = length audioContent\<rparr>);
                         (d2, evs) = saveAudioCache env idx1 d1
                     in (Inr filepath, d2, Synthesize text # evs)))"

text \<open>The first loop of \<open>generateVocabularyAudio\<close>: which texts are already cached.\<close>

definition is_cached :: "server_env \<Rightarrow> disk \<Rightarrow> jsstring \<Rightarrow> bool" where
  "is_cached env d text =
     (let textKey = generateTextKey (srv_lowercase env) text
      in index_truthy (cache_index d) textKey \<and> file_exists d (mp3 textKey))"

text \<open>The second loop: \<open>quickStart\<close> on each new item, an error caught and logged.\<close>

fun generate_new :: "server_env \<Rightarrow> disk \<Rightarrow> jsstring list \<Rightarrow> disk \<times> srv_event list" where
  "generate_new env d [] = (d, [])"
| "generate_new env d (text # rest) =
     (let (r, d1, evs) = quickStart env d text False;
          evs1 = (case r of Inl e \<Rightarrow> evs @ [GenerationFailed text] | Inr p \<Rightarrow> evs);
          (d2, evs2) = generate_new env d1 rest
      in (d2, evs1 @ evs2))"

record batch_result =
  total_items :: nat
  cached :: nat
  generated :: nat

definition generateVocabularyAudio ::
  "server_env \<Rightarrow> disk \<Rightarrow> jsstring list \<Rightarrow> batch_result \<times> disk \<times> srv_event list" where
  "generateVocabularyAudio env d texts =
     (let cachedItems = filter (is_cached env d) texts;
          newItems = filter (\<lambda>t. \<not> is_cached env d t) texts;
          (d', evs) = generate_new env d newItems
      in (\<lparr>total_items = length texts, cached = length cachedItems, generated = length newItems\<rparr>,
          d', evs))"

section \<open>Orders and concrete inputs used in the statements\<close>

text \<open>The pair a due word is ordered by, and the order on it written out.\<close>

definition srs_key :: "vocab_word \<Rightarrow> int \<times> int" where
  "srs_key w = (level (srs w), nextReview (srs w))"

definition key_le :: "vocab_word \<Rightarrow> vocab_word \<Rightarrow> bool" where
  "key_le a b = (level (srs a) < level (srs b)
                 \<or> (level (srs a) = level (srs b) \<and> nextReview (srs a) \<le> nextReview (srs b)))"

definition same_key :: "int \<Rightarrow> int \<Rightarrow> vocab_word \<Rightarrow> bool" where
  "same_key l t w = (level (srs w) = l \<and> nextReview (srs w) = t)"

text \<open>Three words: \<open>word_a\<close> and \<open>word_c\<close> agree on level and due date.\<close>

definition word_a :: vocab_word where
  "word_a = \<lparr>wordId = ascii ''a'', lithuanian = ascii ''labas'', english = ascii ''hello'',
     srs = \<lparr>level = 1, nextReview = 1000, totalReviews = 0, correctAnswers = 0,
            lastReviewed = None\<rparr>\<rparr>"

definition word_b :: vocab_word where
  "word_b = \<lparr>wordId = ascii ''b'', lithuanian = ascii ''rytas'', english = ascii ''morning'',
     srs = \<lparr>level = 5, nextReview = 500, totalReviews = 6, correctAnswers = 5,
            lastReviewed = Some 100\<rparr>\<rparr>"

definition word_c :: vocab_word where
  "word_c = \<lparr>wordId = ascii ''c'', lithuanian = ascii ''vakaras'', english = ascii ''evening'',
     srs = \<lparr>level = 1, nextReview = 1000, totalReviews = 0, correctAnswers = 0,
            lastReviewed = None\<rparr>\<rparr>"

text \<open>A store whose only live array, at address 0, holds the three words out of order.\<close>

definition heap0 :: heap where
  "heap0 = \<lparr>arrays = (\<lambda>a. [])(0 := [word_b, word_a, word_c]), next_addr = 1\<rparr>"

definition vocab0 :: vocabularyData where
  "vocab0 = \<lparr>words = [word_a, word_b], stored = None, dataInitialized = True\<rparr>"

text \<open>What the outside answers to one resolution, and what a trace shows.\<close>

definition probes_miss :: "world \<Rightarrow> client \<Rightarrow> jsstring \<Rightarrow> bool" where
  "probes_miss w c text =
     (head_ok w (ttsUrl w c text) \<noteq> Some True \<and> head_ok w (cacheUrl w c text) \<noteq> Some True)"

definition memo_miss :: "world \<Rightarrow> client \<Rightarrow> jsstring \<Rightarrow> bool" where
  "memo_miss w c text = (cache c (client_generateTextKey (lowercase w) text) = None)"

definition synthesis_fails :: "world \<Rightarrow> client \<Rightarrow> jsstring \<Rightarrow> bool \<Rightarrow> bool" where
  "synthesis_fails w c text force =
     (accepted (generate w (serverUrl c) text force) = None
      \<and> accepted (generate w (fallbackUrl c) text force) = None)"

fun is_browser_speak :: "event \<Rightarrow> bool" where
  "is_browser_speak (BrowserSpeak t) = True"
| "is_browser_speak _ = False"

fun is_play :: "event \<Rightarrow> bool" where
  "is_play (Play u) = True"
| "is_play _ = False"

text \<open>What \<open>speak\<close> ends with once it plays a URL.\<close>

definition play_outcome :: "world \<Rightarrow> jsstring \<Rightarrow> error + unit" where
  "play_outcome w u = (if playable w u then Inr () else Inl AudioUnavailable)"

text \<open>
  The URL of the first tier that yields one, read off the answers of the outside in the
  order \<open>speak\<close> asks: with \<open>forceRegenerate\<close> the two synthesis requests; without it
  the probe of the TTS server, the probe of the main server, the memo, then the two
  synthesis requests.
\<close>

definition resolved_url :: "world \<Rightarrow> client \<Rightarrow> jsstring \<Rightarrow> bool \<Rightarrow> jsstring option" where
  "resolved_url w c text force =
     (if force then
        (case accepted (generate w (serverUrl c) text force) of
           Some u \<Rightarrow> Some u
         | None \<Rightarrow> accepted (generate w (fallbackUrl c) text force))
      else if head_ok w (ttsUrl w c text) = Some True then Some (ttsUrl w c text)
      else if head_ok w (cacheUrl w c text) = Some True then Some (cacheUrl w c text)
      else (case cache c (client_generateTextKey (lowercase w) text) of
              Some u \<Rightarrow> Some u
            | None \<Rightarrow>
               (case accepted (generate w (serverUrl c) text force) of
                  Some u \<Rightarrow> Some u
                | None \<Rightarrow> accepted (generate w (fallbackUrl c) text force))))"

text \<open>
  A client on the two default endpoints, without and with a memo entry for the text
  \<open>Labas\<close>; a world where every request fails and audio plays; one where the TTS server
  synthesises; the first one two days later; and one where every probe hits and no audio
  plays.
\<close>

definition labas :: jsstring where
  "labas = ascii ''Labas''"

definition memo_url :: jsstring where
  "memo_url = ascii ''http://localhost:3001/labas.mp3''"

definition client0 :: client where
  "client0 = \<lparr>serverUrl = ascii ''http://localhost:3001'',
              fallbackUrl = ascii ''http://localhost:8080'',
              cache = Map.empty, usesFallback = False\<rparr>"

definition client_memo :: client where
  "client_memo = client0\<lparr>cache := [ascii ''labas'' \<mapsto> memo_url]\<rparr>"

definition world_down :: world where
  "world_down = \<lparr>lowercase = lowerLT, head_ok = (\<lambda>u. None),
                 generate = (\<lambda>server text force. FetchFailed),
                 playable = (\<lambda>u. True), speechSynthesis = True, clock = 0\<rparr>"

definition world_up :: world where
  "world_up = world_down\<lparr>generate := (\<lambda>server text force.
                 if server = ascii ''http://localhost:3001''
                 then Status True (Body True memo_url) else FetchFailed)\<rparr>"

definition world_later :: world where
  "world_later = world_down\<lparr>clock := 2 * 86400000\<rparr>"

definition world_mute :: world where
  "world_mute = world_down\<lparr>head_ok := (\<lambda>u. Some True), playable := (\<lambda>u. False)\<rparr>"

text \<open>
  On the server: a text has audio when the index answers for its key and the file is
  there; a run went through when its log shows synthesis requests only (no failed
  generation, no index left unsaved).
\<close>

definition has_audio :: "disk \<Rightarrow> jsstring \<Rightarrow> bool" where
  "has_audio d k = (index_truthy (cache_index d) k \<and> file_exists d (mp3 k))"

fun is_synthesize :: "srv_event \<Rightarrow> bool" where
  "is_synthesize (Synthesize t) = True"
| "is_synthesize _ = False"

definition env_ok :: server_env where
  "env_ok = \<lparr>srv_lowercase = lowerLT, synthesizeSpeech = (\<lambda>t. Some [0x49, 0x44, 0x33]),
             writable = (\<lambda>f. True), srv_clock = 0\<rparr>"

definition env_down :: server_env where
  "env_down = env_ok\<lparr>synthesizeSpeech := (\<lambda>t. None)\<rparr>"

definition disk0 :: disk where
  "disk0 = \<lparr>files = (\<lambda>n. None), cache_index = (\<lambda>k. None)\<rparr>"

definition labas_rytas :: jsstring where
  "labas_rytas = ascii ''Labas rytas''"

text \<open>A cache directory that holds the audio of \<open>Labas rytas\<close>.\<close>

definition disk1 :: disk where
  "disk1 = \<lparr>files = (\<lambda>n. None)(ascii ''labasrytas.mp3'' \<mapsto> [0x49, 0x44, 0x33]),
             cache_index = (\<lambda>k. None)(ascii ''labasrytas'' \<mapsto>
               \<lparr>originalText = labas_rytas, filename = ascii ''labasrytas.mp3'',
                generatedAt = 0, fileSize = 3\<rparr>)\<rparr>"

section \<open>Properties of the key derivation\<close>

lemma strip_non_az_all: "list_all is_az (strip_non_az s)"
  by (simp add: strip_non_az_def list_all_iff)

lemma substring0_all: "list_all P s \<Longrightarrow> list_all P (substring0 n s)"
  by (auto simp: substring0_def list_all_iff dest: in_set_takeD)

lemma substring0_length: "length (substring0 n s) \<le> n"
  by (simp add: substring0_def)

text \<open>
  C4. The client's key derivation, the main server's and the one of get\_sound.js return
  the same key for every input string, under any lower-casing of the runtime.
\<close>

theorem generateTextKey_three_equal:
  "client_generateTextKey toLowerCase text = server_generateTextKey toLowerCase text
   \<and> server_generateTextKey toLowerCase text = generateTextKey toLowerCase text"
  by (simp add: client_generateTextKey_def server_generateTextKey_def generateTextKey_def)

text \<open>
  C5. The key derivation is a total function of its string argument; its result has at
  most 50 code units, all of them in a-z. The key of "\<open>A\<close>-ogonek \<open>z\<close>-caron
  \<open>uolas\<close>" is the seven ASCII letters \<open>azuolas\<close>.
\<close>

theorem generateTextKey_total_az50:
  "length (client_generateTextKey toLowerCase text) \<le> 50
   \<and> list_all is_az (client_generateTextKey toLowerCase text)
   \<and> client_generateTextKey lowerLT azuolas = ascii ''azuolas''"
proof -
  have len: "length (client_generateTextKey toLowerCase text) \<le> 50"
    unfolding client_generateTextKey_def by (rule substring0_length)
  have az: "list_all is_az (client_generateTextKey toLowerCase text)"
    unfolding client_generateTextKey_def by (rule substring0_all) (rule strip_non_az_all)
  have ex: "client_generateTextKey lowerLT azuolas = ascii ''azuolas''"
    by (simp add: client_generateTextKey_def lowerLT_def azuolas_def lower_unit_def
        replaceAll_def strip_non_az_def is_az_def substring0_def ascii_def)
  from len az ex show ?thesis by simp
qed

section \<open>Properties of the scheduler\<close>

lemma compareWords_le: "compareWords a b \<le> 0 \<longleftrightarrow> srs_key a \<le> srs_key b"
  by (auto simp: compareWords_def srs_key_def less_eq_prod_def)

lemma key_le_srs_key: "key_le a b \<longleftrightarrow> srs_key a \<le> srs_key b"
  by (auto simp: key_le_def srs_key_def less_eq_prod_def)

lemma js_insert_insort: "js_insert compareWords x xs = insort_key srs_key x xs"
  by (induction xs) (simp_all add: compareWords_le)

lemma js_sort_sort_key: "js_sort compareWords xs = sort_key srs_key xs"
  by (induction xs) (simp_all add: js_sort_def js_insert_insort)

lemma js_sort_sorted: "sorted_wrt key_le (js_sort compareWords xs)"
proof -
  have "sorted (map srs_key (sort_key srs_key xs))" by (rule sorted_sort_key)
  then have "sorted_wrt (\<lambda>a b. srs_key a \<le> srs_key b) (sort_key srs_key xs)"
    by (simp add: sorted_map)
  then show ?thesis by (simp add: js_sort_sort_key key_le_srs_key [abs_def])
qed

lemma js_sort_mset: "mset (js_sort compareWords xs) = mset xs"
  by (simp add: js_sort_sort_key)

lemma js_sort_stable: "filter (same_key l t) (js_sort compareWords xs) = filter (same_key l t) xs"
proof -
  have "same_key l t = (\<lambda>w. srs_key w = (l, t))"
    by (auto simp: same_key_def srs_key_def fun_eq_iff)
  then show ?thesis by (simp add: js_sort_sort_key sort_key_stable)
qed

lemma slice0_length: "0 \<le> e \<Longrightarrow> int (length (slice0 xs e)) \<le> e"
  by (simp add: slice0_def Let_def)

lemma slice0_sorted: "sorted_wrt R xs \<Longrightarrow> sorted_wrt R (slice0 xs e)"
  by (simp add: slice0_def Let_def sorted_wrt_take)

lemma filter_take_prefix: "prefix (filter P (take k xs)) (filter P xs)"
proof -
  have "filter P xs = filter P (take k xs) @ filter P (drop k xs)"
    by (metis append_take_drop_id filter_append)
  then show ?thesis by (simp add: prefix_def)
qed

lemma slice0_filter_prefix: "prefix (filter P (slice0 xs e)) (filter P xs)"
  by (simp add: slice0_def Let_def filter_take_prefix)

lemma suggestStudySession_recommended:
  "recommended (fst (suggestStudySession h dueWords n)) = next_addr h"
  by (simp add: suggestStudySession_def alloc_def sort_in_place_def Let_def)

lemma suggestStudySession_arrays:
  "arrays (snd (suggestStudySession h dueWords n)) =
     ((arrays h)(dueWords := js_sort compareWords (arrays h dueWords)))
       (next_addr h := slice0 (js_sort compareWords (arrays h dueWords)) n)"
proof (cases "arrays h dueWords = []")
  case True
  then have "js_sort compareWords (arrays h dueWords) = []"
    by (simp add: js_sort_def)
  with True show ?thesis
    by (simp add: suggestStudySession_def alloc_def slice0_def fun_eq_iff)
next
  case False
  then show ?thesis
    by (simp add: suggestStudySession_def alloc_def sort_in_place_def Let_def)
qed

lemma suggestStudySession_heap:
  assumes live: "dueWords < next_addr h"
      and run: "suggestStudySession h dueWords n = (s, h')"
  shows "recommended s = next_addr h"
    and "arrays h' dueWords = js_sort compareWords (arrays h dueWords)"
    and "arrays h' (recommended s) = slice0 (js_sort compareWords (arrays h dueWords)) n"
    and "a \<noteq> dueWords \<Longrightarrow> a \<noteq> next_addr h \<Longrightarrow> arrays h' a = arrays h a"
proof -
  from run have s: "s = fst (suggestStudySession h dueWords n)"
    and h': "h' = snd (suggestStudySession h dueWords n)" by simp_all
  show r: "recommended s = next_addr h"
    by (simp add: s suggestStudySession_recommended)
  from live show "arrays h' dueWords = js_sort compareWords (arrays h dueWords)"
    by (simp add: h' suggestStudySession_arrays)
  show "arrays h' (recommended s) = slice0 (js_sort compareWords (arrays h dueWords)) n"
    by (simp add: r) (simp add: h' suggestStudySession_arrays)
  show "a \<noteq> dueWords \<Longrightarrow> a \<noteq> next_addr h \<Longrightarrow> arrays h' a = arrays h a"
    by (simp add: h' suggestStudySession_arrays)
qed

text \<open>The three words of \<open>heap0\<close>, sorted: the level-5 word goes last, the two level-1
  words keep their order.\<close>

lemma js_sort_heap0: "js_sort compareWords [word_b, word_a, word_c] = [word_a, word_c, word_b]"
  by (simp add: js_sort_def compareWords_def word_a_def word_b_def word_c_def)

lemma recommended_heap0:
  "arrays (snd (suggestStudySession heap0 0 n)) (recommended (fst (suggestStudySession heap0 0 n)))
     = slice0 [word_a, word_c, word_b] n"
  by (simp add: suggestStudySession_recommended suggestStudySession_arrays)
     (simp add: heap0_def js_sort_heap0)

text \<open>
  C1. On an incorrect answer \<open>calculateNextReview\<close> gives level \<open>max (L - 2) 1\<close>, for
  every level \<open>L\<close>; \<open>updateWordSRS\<close> writes \<open>max (L - 1) 1\<close>: it takes the word
  \<open>b\<close> of \<open>vocab0\<close> from level 5 to level 4, where \<open>calculateNextReview\<close> gives 3.
\<close>

theorem incorrect_outcome_levels:
  "newLevel (calculateNextReview now L False m) = max (L - 2) 1
   \<and> level (reviewed now False s) = max (level s - 1) 1
   \<and> map (\<lambda>w. level (srs w)) (words (snd (updateWordSRS now vocab0 (ascii ''b'') False))) = [1, 4]
   \<and> newLevel (calculateNextReview now 5 False 1) = 3"
proof -
  have a: "newLevel (calculateNextReview now L False m) = max (L - 2) 1" for L m
    by (simp add: calculateNextReview_def Let_def max.commute)
  have b: "level (reviewed now False s) = max (level s - 1) 1"
    by (simp add: reviewed_def Let_def)
  have c: "map (\<lambda>w. level (srs w)) (words (snd (updateWordSRS now vocab0 (ascii ''b'') False)))
             = [1, 4]"
    by (simp add: updateWordSRS_def vocab0_def word_a_def word_b_def ascii_def saveWords_def
        reviewed_def Let_def)
  from a [of L m] a [of 5 1] b c show ?thesis by simp
qed

text \<open>
  C9. When no stored word has the given id, \<open>updateWordSRS\<close> returns \<open>false\<close> and the
  instance is as before: the array of words, every counter, level and date in it, and
  the stored copy.
\<close>

theorem updateWordSRS_unknown_id:
  assumes "wid \<notin> set (map wordId (words v))"
  shows "updateWordSRS now v wid correct = (False, v)"
proof -
  from assms have "find (\<lambda>w. wordId w = wid) (words v) = None"
    by (auto simp: find_None_iff)
  then show ?thesis by (simp add: updateWordSRS_def)
qed

theorem updateWordSRS_unknown_id_witness:
  "ascii ''zz'' \<notin> set (map wordId (words vocab0))
   \<and> updateWordSRS 0 vocab0 (ascii ''zz'') True = (False, vocab0)"
  using updateWordSRS_unknown_id [of "ascii ''zz''" vocab0 0 True]
  by (simp add: vocab0_def word_a_def word_b_def ascii_def)

text \<open>
  C6. For a live argument array and every session length: the recommended list is in
  non-decreasing order of (level, due date); the words in it that agree on both are the
  first ones of the argument with that level and date, in the argument's order; and the
  list is no longer than the session length, a length being at least 0.
\<close>

theorem suggestStudySession_sorted_bounded_stable:
  assumes live: "dueWords < next_addr h"
      and run: "suggestStudySession h dueWords targetSessionLength = (s, h')"
  shows "sorted_wrt key_le (arrays h' (recommended s))
     \<and> (0 \<le> targetSessionLength \<longrightarrow> int (length (arrays h' (recommended s))) \<le> targetSessionLength)
     \<and> prefix (filter (same_key l t) (arrays h' (recommended s)))
               (filter (same_key l t) (arrays h dueWords))"
proof -
  let ?ys = "js_sort compareWords (arrays h dueWords)"
  have rec: "arrays h' (recommended s) = slice0 ?ys targetSessionLength"
    by (rule suggestStudySession_heap(3) [OF live run])
  have "prefix (filter (same_key l t) (slice0 ?ys targetSessionLength)) (filter (same_key l t) ?ys)"
    by (rule slice0_filter_prefix)
  then have st: "prefix (filter (same_key l t) (slice0 ?ys targetSessionLength))
                  (filter (same_key l t) (arrays h dueWords))"
    by (simp add: js_sort_stable)
  show ?thesis
    using st by (simp add: rec slice0_sorted js_sort_sorted slice0_length)
qed

theorem suggestStudySession_sorted_bounded_stable_witness:
  "0 < next_addr heap0
   \<and> arrays (snd (suggestStudySession heap0 0 2)) (recommended (fst (suggestStudySession heap0 0 2)))
       = [word_a, word_c]
   \<and> sorted_wrt key_le [word_a, word_c]
   \<and> (0::int) \<le> 2 \<and> int (length [word_a, word_c]) \<le> 2
   \<and> prefix (filter (same_key 1 1000) [word_a, word_c])
             (filter (same_key 1 1000) [word_b, word_a, word_c])"
proof -
  have r: "arrays (snd (suggestStudySession heap0 0 2))
             (recommended (fst (suggestStudySession heap0 0 2))) = [word_a, word_c]"
    by (simp add: recommended_heap0 slice0_def)
  have h: "arrays heap0 0 = [word_b, word_a, word_c]" and n: "0 < next_addr heap0"
    by (simp_all add: heap0_def)
  from suggestStudySession_sorted_bounded_stable
         [of 0 heap0 2 "fst (suggestStudySession heap0 0 2)" "snd (suggestStudySession heap0 0 2)"
            1 1000]
  show ?thesis by (simp add: r h n)
qed

text \<open>
  C10. \<open>suggestStudySession\<close> reorders the array it is given: after the call that array
  holds the same words in (level, due date) order, whatever the session length; the
  recommended list is another array, the slice of the reordered argument.
\<close>

theorem suggestStudySession_sorts_argument:
  assumes live: "dueWords < next_addr h"
      and run: "suggestStudySession h dueWords targetSessionLength = (s, h')"
  shows "arrays h' dueWords = js_sort compareWords (arrays h dueWords)
     \<and> sorted_wrt key_le (arrays h' dueWords)
     \<and> mset (arrays h' dueWords) = mset (arrays h dueWords)
     \<and> recommended s \<noteq> dueWords
     \<and> arrays h' (recommended s) = slice0 (arrays h' dueWords) targetSessionLength"
proof -
  have a: "arrays h' dueWords = js_sort compareWords (arrays h dueWords)"
    by (rule suggestStudySession_heap(2) [OF live run])
  have r: "recommended s = next_addr h"
    by (rule suggestStudySession_heap(1) [OF live run])
  have c: "arrays h' (recommended s)
             = slice0 (js_sort compareWords (arrays h dueWords)) targetSessionLength"
    by (rule suggestStudySession_heap(3) [OF live run])
  from live r have "recommended s \<noteq> dueWords" by simp
  then show ?thesis
    by (simp add: a c js_sort_sorted js_sort_mset)
qed

theorem suggestStudySession_sorts_argument_witness:
  "0 < next_addr heap0
   \<and> arrays heap0 0 = [word_b, word_a, word_c]
   \<and> arrays (snd (suggestStudySession heap0 0 2)) 0 = [word_a, word_c, word_b]
   \<and> sorted_wrt key_le [word_a, word_c, word_b]
   \<and> mset [word_a, word_c, word_b] = mset [word_b, word_a, word_c]
   \<and> recommended (fst (suggestStudySession heap0 0 2)) \<noteq> 0
   \<and> arrays (snd (suggestStudySession heap0 0 2)) (recommended (fst (suggestStudySession heap0 0 2)))
       = slice0 [word_a, word_c, word_b] 2"
proof -
  have h: "arrays heap0 0 = [word_b, word_a, word_c]" and n: "0 < next_addr heap0"
    by (simp_all add: heap0_def)
  from suggestStudySession_sorts_argument
         [of 0 heap0 2 "fst (suggestStudySession heap0 0 2)" "snd (suggestStudySession heap0 0 2)"]
  show ?thesis
    by (simp add: h n js_sort_heap0) (simp add: key_le_def word_a_def word_b_def word_c_def)
qed

section \<open>Properties of the batch generation\<close>

lemma is_cached_has_audio:
  "is_cached env d t = has_audio d (generateTextKey (srv_lowercase env) t)"
  by (simp add: is_cached_def has_audio_def Let_def)

lemma quickStart_keeps:
  assumes "quickStart env d t f = (r, d', evs)" and "has_audio d k"
  shows "has_audio d' k"
  using assms
  by (auto simp: quickStart_def saveAudioCache_def has_audio_def index_truthy_def file_exists_def
      Let_def split: if_splits option.splits)

lemma quickStart_adds:
  assumes "quickStart env d t False = (Inr p, d', evs)" and "list_all is_synthesize evs"
      and "t \<noteq> []"
  shows "has_audio d' (generateTextKey (srv_lowercase env) t)"
  using assms
  by (auto simp: quickStart_def saveAudioCache_def has_audio_def index_truthy_def file_exists_def
      Let_def split: if_splits option.splits)

lemma generate_new_keeps:
  "generate_new env d ts = (d', evs) \<Longrightarrow> has_audio d k \<Longrightarrow> has_audio d' k"
proof (induction ts arbitrary: d d' evs)
  case Nil
  then show ?case by simp
next
  case (Cons t ts)
  obtain r d1 e1 where q: "quickStart env d t False = (r, d1, e1)"
    by (cases "quickStart env d t False") auto
  obtain d2 e2 where g: "generate_new env d1 ts = (d2, e2)"
    by (cases "generate_new env d1 ts") auto
  from Cons.prems(1) q g have "d' = d2" by simp
  moreover from quickStart_keeps [OF q Cons.prems(2)] have "has_audio d1 k" .
  ultimately show ?case using Cons.IH [OF g] by simp
qed

lemma generate_new_adds:
  "generate_new env d ts = (d', evs) \<Longrightarrow> list_all is_synthesize evs \<Longrightarrow> [] \<notin> set ts
     \<Longrightarrow> t \<in> set ts \<Longrightarrow> has_audio d' (generateTextKey (srv_lowercase env) t)"
proof (induction ts arbitrary: d d' evs)
  case Nil
  then show ?case by simp
next
  case (Cons x ts)
  obtain r d1 e1 where q: "quickStart env d x False = (r, d1, e1)"
    by (cases "quickStart env d x False") auto
  obtain d2 e2 where g: "generate_new env d1 ts = (d2, e2)"
    by (cases "generate_new env d1 ts") auto
  from Cons.prems(1) q g have d': "d' = d2"
    and evs: "evs = (case r of Inl e \<Rightarrow> e1 @ [GenerationFailed x] | Inr p \<Rightarrow> e1) @ e2"
    by simp_all
  from evs Cons.prems(2) obtain p where r: "r = Inr p" and e1: "list_all is_synthesize e1"
    and e2: "list_all is_synthesize e2"
    by (cases r) auto
  from Cons.prems(3) have x: "x \<noteq> []" and ts: "[] \<notin> set ts" by auto
  show ?case
  proof (cases "t \<in> set ts")
    case True
    from Cons.IH [OF g e2 ts True] d' show ?thesis by simp
  next
    case False
    with Cons.prems(4) have "t = x" by simp
    moreover have "has_audio d1 (generateTextKey (srv_lowercase env) x)"
      using quickStart_adds q r e1 x by blast
    ultimately show ?thesis using generate_new_keeps [OF g] d' by simp
  qed
qed

lemma key_empty: "generateTextKey lowerLT [] = []"
  by (simp add: generateTextKey_def lowerLT_def replaceAll_def strip_non_az_def substring0_def)

lemma key_default: "generateTextKey lowerLT defaultText = ascii ''labasrytaskaipsekasi''"
  by (simp add: generateTextKey_def lowerLT_def defaultText_def lower_unit_def
      replaceAll_def strip_non_az_def is_az_def substring0_def ascii_def)

lemma key_labas_rytas: "generateTextKey lowerLT labas_rytas = ascii ''labasrytas''"
  by (simp add: generateTextKey_def lowerLT_def labas_rytas_def lower_unit_def
      replaceAll_def strip_non_az_def is_az_def substring0_def ascii_def)

lemma first_batch_labas_rytas:
  "snd (snd (generateVocabularyAudio env_ok disk0 [labas_rytas])) = [Synthesize labas_rytas]"
  by (simp add: generateVocabularyAudio_def is_cached_def quickStart_def saveAudioCache_def
      env_ok_def disk0_def index_truthy_def file_exists_def key_labas_rytas Let_def)
     (simp add: labas_rytas_def ascii_def)

text \<open>
  What the code does keep of idempotence. For every list of non-empty texts: after a call
  of \<open>generateVocabularyAudio\<close> whose log shows synthesis requests only (none failed,
  every index save went through), a second call on the directory it left, whatever the
  cloud and the disk then answer, counts every text as cached, returns \<open>generated = 0\<close>,
  requests no synthesis and leaves the directory as it is.
\<close>

lemma generateVocabularyAudio_second_call:
  assumes nonempty: "[] \<notin> set texts"
      and first: "generateVocabularyAudio env d texts = (r1, d1, evs1)"
      and ok: "list_all is_synthesize evs1"
      and same: "srv_lowercase env' = srv_lowercase env"
  shows "generateVocabularyAudio env' d1 texts
           = (\<lparr>total_items = length texts, cached = length texts, generated = 0\<rparr>, d1, [])"
proof -
  let ?new = "filter (\<lambda>t. \<not> is_cached env d t) texts"
  from first have g: "generate_new env d ?new = (d1, evs1)"
    by (simp add: generateVocabularyAudio_def Let_def split: prod.splits)
  have all: "is_cached env' d1 t" if t: "t \<in> set texts" for t
  proof (cases "is_cached env d t")
    case True
    then show ?thesis
      using generate_new_keeps [OF g] by (simp add: is_cached_has_audio same)
  next
    case False
    with t have "t \<in> set ?new" by simp
    moreover from nonempty have "[] \<notin> set ?new" by simp
    ultimately show ?thesis
      using generate_new_adds [OF g ok] by (simp add: is_cached_has_audio same)
  qed
  then have c: "filter (is_cached env' d1) texts = texts"
    and n: "filter (\<lambda>t. \<not> is_cached env' d1 t) texts = []"
    by (simp_all add: filter_id_conv filter_empty_conv)
  show ?thesis
    by (simp add: generateVocabularyAudio_def Let_def c n)
qed

lemma generateVocabularyAudio_second_call_labas_rytas:
  "[] \<notin> set [labas_rytas]
   \<and> snd (snd (generateVocabularyAudio env_ok disk0 [labas_rytas])) = [Synthesize labas_rytas]
   \<and> srv_lowercase env_down = srv_lowercase env_ok
   \<and> generateVocabularyAudio env_down
        (fst (snd (generateVocabularyAudio env_ok disk0 [labas_rytas]))) [labas_rytas]
       = (\<lparr>total_items = 1, cached = 1, generated = 0\<rparr>,
          fst (snd (generateVocabularyAudio env_ok disk0 [labas_rytas])), [])"
proof -
  have n: "[] \<notin> set [labas_rytas]"
    by (simp add: labas_rytas_def ascii_def)
  have ok: "list_all is_synthesize (snd (snd (generateVocabularyAudio env_ok disk0 [labas_rytas])))"
    by (simp add: first_batch_labas_rytas)
  have s: "srv_lowercase env_down = srv_lowercase env_ok"
    by (simp add: env_down_def)
  have f: "generateVocabularyAudio env_ok disk0 [labas_rytas]
             = (fst (generateVocabularyAudio env_ok disk0 [labas_rytas]),
                fst (snd (generateVocabularyAudio env_ok disk0 [labas_rytas])),
                snd (snd (generateVocabularyAudio env_ok disk0 [labas_rytas])))"
    by simp
  from generateVocabularyAudio_second_call [OF n f ok s] n s first_batch_labas_rytas
  show ?thesis by simp
qed

text \<open>
  For every list, empty texts included, the second call requests no synthesis and leaves
  the directory as it is: a text it counts as new was generated by the first call under
  the key of the text \<open>quickStart\<close> works on, and \<open>quickStart\<close> finds it there.
\<close>

lemma quickStart_adds_effective:
  assumes "quickStart env d t False = (Inr p, d', evs)" and "list_all is_synthesize evs"
  shows "has_audio d' (generateTextKey (srv_lowercase env) (if t = [] then defaultText else t))"
  using assms
  by (auto simp: quickStart_def saveAudioCache_def has_audio_def index_truthy_def file_exists_def
      Let_def split: if_splits option.splits)

lemma generate_new_adds_effective:
  "generate_new env d ts = (d', evs) \<Longrightarrow> list_all is_synthesize evs \<Longrightarrow> t \<in> set ts
     \<Longrightarrow> has_audio d' (generateTextKey (srv_lowercase env) (if t = [] then defaultText else t))"
proof (induction ts arbitrary: d d' evs)
  case Nil
  then show ?case by simp
next
  case (Cons x ts)
  obtain r d1 e1 where q: "quickStart env d x False = (r, d1, e1)"
    by (cases "quickStart env d x False") auto
  obtain d2 e2 where g: "generate_new env d1 ts = (d2, e2)"
    by (cases "generate_new env d1 ts") auto
  from Cons.prems(1) q g have d': "d' = d2"
    and evs: "evs = (case r of Inl e \<Rightarrow> e1 @ [GenerationFailed x] | Inr p \<Rightarrow> e1) @ e2"
    by simp_all
  from evs Cons.prems(2) obtain p where r: "r = Inr p" and e1: "list_all is_synthesize e1"
    and e2: "list_all is_synthesize e2"
    by (cases r) auto
  show ?case
  proof (cases "t \<in> set ts")
    case True
    from Cons.IH [OF g e2 True] d' show ?thesis by simp
  next
    case False
    with Cons.prems(3) have tx: "t = x" by simp
    have "has_audio d1 (generateTextKey (srv_lowercase env) (if x = [] then defaultText else x))"
      using quickStart_adds_effective q r e1 by blast
    from generate_new_keeps [OF g this] d' tx show ?thesis by (simp split: if_splits)
  qed
qed

lemma quickStart_cached:
  assumes "has_audio d (generateTextKey (srv_lowercase env) (if t = [] then defaultText else t))"
  shows "fst (snd (quickStart env d t False)) = d \<and> snd (snd (quickStart env d t False)) = []
         \<and> (\<exists>p. fst (quickStart env d t False) = Inr p)"
  using assms by (simp add: quickStart_def has_audio_def Let_def)

lemma generate_new_all_cached:
  "list_all (\<lambda>t. has_audio d (generateTextKey (srv_lowercase env)
                                 (if t = [] then defaultText else t))) ts
     \<Longrightarrow> generate_new env d ts = (d, [])"
proof (induction ts)
  case Nil
  then show ?case by simp
next
  case (Cons t ts)
  from Cons.prems
  have h: "has_audio d (generateTextKey (srv_lowercase env) (if t = [] then defaultText else t))"
    by simp
  from quickStart_cached [OF h] obtain p
    where q: "quickStart env d t False = (Inr p, d, [])"
    by (cases "quickStart env d t False") auto
  from Cons.prems have "generate_new env d ts = (d, [])"
    by (intro Cons.IH) simp
  with q show ?case by simp
qed

lemma generateVocabularyAudio_second_call_no_synthesis:
  assumes first: "generateVocabularyAudio env d texts = (r1, d1, evs1)"
      and ok: "list_all is_synthesize evs1"
      and same: "srv_lowercase env' = srv_lowercase env"
  shows "fst (snd (generateVocabularyAudio env' d1 texts)) = d1
       \<and> snd (snd (generateVocabularyAudio env' d1 texts)) = []"
proof -
  let ?new = "filter (\<lambda>t. \<not> is_cached env d t) texts"
  let ?new2 = "filter (\<lambda>t. \<not> is_cached env' d1 t) texts"
  from first have g: "generate_new env d ?new = (d1, evs1)"
    by (simp add: generateVocabularyAudio_def Let_def split: prod.splits)
  have "has_audio d1 (generateTextKey (srv_lowercase env') (if t = [] then defaultText else t))"
    if t: "t \<in> set ?new2" for t
  proof -
    from t have "\<not> is_cached env d t"
      using generate_new_keeps [OF g] by (auto simp: is_cached_has_audio same)
    with t have "t \<in> set ?new" by simp
    from generate_new_adds_effective [OF g ok this] show ?thesis by (simp add: same)
  qed
  then have "generate_new env' d1 ?new2 = (d1, [])"
    by (intro generate_new_all_cached) (simp add: list_all_iff)
  then show ?thesis
    by (simp add: generateVocabularyAudio_def Let_def)
qed

text \<open>
  C7. The list with the one empty text. The first call synthesises the default text of
  \<open>quickStart\<close> and nothing fails; the second call finds no entry under the empty key,
  counts the text as new again and returns \<open>cached = 0\<close> and \<open>generated = 1\<close>, where the
  claim has 1 and 0. It requests no synthesis and leaves the directory as it is.
\<close>

theorem generateVocabularyAudio_empty_text_miscount:
  "snd (snd (generateVocabularyAudio env_ok disk0 [[]])) = [Synthesize defaultText]
   \<and> fst (generateVocabularyAudio env_ok
        (fst (snd (generateVocabularyAudio env_ok disk0 [[]]))) [[]])
       = \<lparr>total_items = 1, cached = 0, generated = 1\<rparr>
   \<and> fst (snd (generateVocabularyAudio env_ok
        (fst (snd (generateVocabularyAudio env_ok disk0 [[]]))) [[]]))
       = fst (snd (generateVocabularyAudio env_ok disk0 [[]]))
   \<and> snd (snd (generateVocabularyAudio env_ok
        (fst (snd (generateVocabularyAudio env_ok disk0 [[]]))) [[]])) = []"
proof -
  have c0: "\<not> is_cached env_ok disk0 []"
    by (simp add: is_cached_def env_ok_def disk0_def key_empty index_truthy_def ascii_def)
  have q: "quickStart env_ok disk0 [] False
             = (Inr (ascii ''../audio_cache/'' @ mp3 (ascii ''labasrytaskaipsekasi'')),
                \<lparr>files = (\<lambda>n. None)(mp3 (ascii ''labasrytaskaipsekasi'') \<mapsto> [0x49, 0x44, 0x33]),
                 cache_index = (\<lambda>k. None)(ascii ''labasrytaskaipsekasi'' \<mapsto>
                   \<lparr>originalText = defaultText, filename = mp3 (ascii ''labasrytaskaipsekasi''),
                    generatedAt = 0, fileSize = 3\<rparr>)\<rparr>,
                [Synthesize defaultText])"
    by (simp add: quickStart_def saveAudioCache_def env_ok_def disk0_def key_default
        index_truthy_def file_exists_def Let_def)
       (simp add: ascii_def numeral_3_eq_3)
  let ?d1 = "\<lparr>files = (\<lambda>n. None)(mp3 (ascii ''labasrytaskaipsekasi'') \<mapsto> [0x49, 0x44, 0x33]),
              cache_index = (\<lambda>k. None)(ascii ''labasrytaskaipsekasi'' \<mapsto>
                \<lparr>originalText = defaultText, filename = mp3 (ascii ''labasrytaskaipsekasi''),
                 generatedAt = 0, fileSize = 3\<rparr>)\<rparr>"
  have first: "generateVocabularyAudio env_ok disk0 [[]]
                 = (\<lparr>total_items = 1, cached = 0, generated = 1\<rparr>, ?d1, [Synthesize defaultText])"
    by (simp add: generateVocabularyAudio_def c0 q)
  have c1: "\<not> is_cached env_ok ?d1 []"
    by (simp add: is_cached_def env_ok_def key_empty index_truthy_def ascii_def)
  have q1: "quickStart env_ok ?d1 [] False
              = (Inr (ascii ''../audio_cache/'' @ mp3 (ascii ''labasrytaskaipsekasi'')), ?d1, [])"
    by (simp add: quickStart_def env_ok_def key_default index_truthy_def file_exists_def Let_def)
  have second: "generateVocabularyAudio env_ok ?d1 [[]]
                  = (\<lparr>total_items = 1, cached = 0, generated = 1\<rparr>, ?d1, [])"
    by (simp add: generateVocabularyAudio_def c1 q1)
  show ?thesis by (simp add: first second)
qed

section \<open>Properties of the pronunciation client\<close>

lemma getAudioUrl_cases:
  "getAudioUrl w c text force =
     (case (if force then None else cache c (client_generateTextKey (lowercase w) text)) of
        Some u \<Rightarrow> (Inr u, c, [])
      | None \<Rightarrow>
         (case accepted (generate w (serverUrl c) text force) of
            Some u \<Rightarrow> (Inr u, c\<lparr>cache := (cache c)(client_generateTextKey (lowercase w) text \<mapsto> u),
                               usesFallback := (serverUrl c = fallbackUrl c)\<rparr>,
                       [Generate (serverUrl c) text force])
          | None \<Rightarrow>
             (case accepted (generate w (fallbackUrl c) text force) of
                Some u \<Rightarrow> (Inr u, c\<lparr>cache := (cache c)(client_generateTextKey (lowercase w) text \<mapsto> u),
                                   usesFallback := True\<rparr>,
                           [Generate (serverUrl c) text force, Generate (fallbackUrl c) text force])
              | None \<Rightarrow> (Inl AllServersUnavailable, c,
                           [Generate (serverUrl c) text force, Generate (fallbackUrl c) text force]))))"
  by (simp add: getAudioUrl_def Let_def split: option.splits)

lemma key_labas: "client_generateTextKey lowerLT labas = ascii ''labas''"
  by (simp add: client_generateTextKey_def lowerLT_def labas_def lower_unit_def
      replaceAll_def strip_non_az_def is_az_def substring0_def ascii_def)

lemma memo_labas:
  "cache client_memo (client_generateTextKey (lowercase world_down) labas) = Some memo_url"
  by (simp add: world_down_def key_labas client_memo_def)

lemma getAudioUrl_world_up:
  "getAudioUrl world_up client0 labas False
     = (Inr memo_url, client_memo, [Generate (ascii ''http://localhost:3001'') labas False])"
  by (simp add: getAudioUrl_cases world_up_def world_down_def key_labas)
     (simp add: client_memo_def client0_def key_labas ascii_def)




text \<open>
  C3, as the code has it. The client's memo has no time to live: once \<open>getAudioUrl\<close> has
  returned a URL for a text, every later call with \<open>forceRegenerate\<close> false, in any
  later world (any clock reading, any state of the network), returns that URL from the
  memo, sends nothing and leaves the entry where it is. The server's store does not
  expire either: audio that is there before a \<open>quickStart\<close> is there after it.
\<close>

theorem memo_never_expires:
  assumes run: "getAudioUrl w c text force = (Inr url, c', evs)"
      and same: "lowercase w' = lowercase w"
  shows "getAudioUrl w' c' text False = (Inr url, c', [])
     \<and> (has_audio d k \<longrightarrow> has_audio (fst (snd (quickStart env d t f))) k)"
proof -
  from run have "cache c' (client_generateTextKey (lowercase w) text) = Some url"
    by (auto simp: getAudioUrl_cases split: option.splits if_splits)
  with same have memo: "getAudioUrl w' c' text False = (Inr url, c', [])"
    by (simp add: getAudioUrl_cases)
  have "has_audio (fst (snd (quickStart env d t f))) k" if "has_audio d k"
    using quickStart_keeps [of env d t f "fst (quickStart env d t f)"
        "fst (snd (quickStart env d t f))" "snd (snd (quickStart env d t f))" k] that
    by simp
  with memo show ?thesis by simp
qed

theorem memo_never_expires_witness:
  "getAudioUrl world_up client0 labas False
     = (Inr memo_url, client_memo, [Generate (ascii ''http://localhost:3001'') labas False])
   \<and> lowercase world_later = lowercase world_up
   \<and> getAudioUrl world_later client_memo labas False = (Inr memo_url, client_memo, [])
   \<and> has_audio disk1 (ascii ''labasrytas'')
   \<and> has_audio (fst (snd (quickStart env_down disk1 labas_rytas True))) (ascii ''labasrytas'')"
proof -
  have s: "lowercase world_later = lowercase world_up"
    by (simp add: world_later_def world_up_def)
  have h: "has_audio disk1 (ascii ''labasrytas'')"
    by (simp add: has_audio_def disk1_def index_truthy_def file_exists_def mp3_def ascii_def)
  from memo_never_expires [OF getAudioUrl_world_up s, of disk1 "ascii ''labasrytas''"
         env_down labas_rytas True]
       getAudioUrl_world_up s h
  show ?thesis by simp
qed

text \<open>
  An entry written at clock 0 and looked up 48 hours later, with every server down: it is
  a hit, nothing is sent, and the memo still holds it.
\<close>

theorem memo_entry_older_than_ttl_counterexample:
  "getAudioUrl world_up client0 labas False
     = (Inr memo_url, client_memo, [Generate (ascii ''http://localhost:3001'') labas False])
   \<and> clock world_later - clock world_up = 2 * (24 * 60 * 60 * 1000)
   \<and> getAudioUrl world_later client_memo labas False = (Inr memo_url, client_memo, [])"
proof -
  have "getAudioUrl world_later client_memo labas False = (Inr memo_url, client_memo, [])"
    by (simp add: getAudioUrl_cases world_later_def world_down_def key_labas)
       (simp add: client_memo_def)
  moreover have "clock world_later - clock world_up = 2 * (24 * 60 * 60 * 1000)"
    by (simp add: world_later_def world_up_def world_down_def)
  ultimately show ?thesis by (simp add: getAudioUrl_world_up)
qed

text \<open>
  C8, as the code has it. \<open>speak\<close> ends in the error \<open>AudioUnavailable\<close> exactly when
  no tier that it tries yields a URL (with \<open>forceRegenerate\<close> false: both probes miss, the
  memo has no entry and both synthesis requests fail; with \<open>forceRegenerate\<close> true: both
  synthesis requests fail) or the URL of the first tier that yields one does not play;
  otherwise it succeeds. That URL is the only one it plays. It never speaks with the
  browser's voice, which only \<open>fallbackSpeak\<close> does.
\<close>

theorem speak_unavailable_iff:
  "fst (speak w c text force)
     = (case resolved_url w c text force of
          None \<Rightarrow> Inl AudioUnavailable
        | Some u \<Rightarrow> play_outcome w u)
   \<and> (fst (speak w c text force) = Inl AudioUnavailable)
     = (case resolved_url w c text force of None \<Rightarrow> True | Some u \<Rightarrow> \<not> playable w u)
   \<and> (resolved_url w c text force = None)
     = (if force then synthesis_fails w c text force
        else probes_miss w c text \<and> memo_miss w c text \<and> synthesis_fails w c text force)
   \<and> filter is_play (snd (snd (speak w c text force)))
     = (case resolved_url w c text force of None \<Rightarrow> [] | Some u \<Rightarrow> [Play u])
   \<and> \<not> list_ex is_browser_speak (snd (snd (speak w c text force)))
   \<and> list_ex is_browser_speak (fallbackSpeak w text) = speechSynthesis w"
proof (cases force)
  case True
  then show ?thesis
    by (auto simp: speak_def playAudio_def unavailable_def Let_def split_beta getAudioUrl_cases
        synthesis_fails_def fallbackSpeak_def resolved_url_def play_outcome_def
        split: option.splits sum.splits)
next
  case False
  then show ?thesis
    by (auto simp: speak_def checkCacheDirectly_def playAudio_def unavailable_def Let_def
        split_beta getAudioUrl_cases probes_miss_def memo_miss_def synthesis_fails_def
        fallbackSpeak_def resolved_url_def play_outcome_def split: option.splits sum.splits)
qed

theorem speak_unavailable_iff_witness:
  "probes_miss world_down client0 labas \<and> memo_miss world_down client0 labas
   \<and> synthesis_fails world_down client0 labas False
   \<and> resolved_url world_down client0 labas False = None
   \<and> fst (speak world_down client0 labas False) = Inl AudioUnavailable
   \<and> resolved_url world_down client_memo labas False = Some memo_url
   \<and> fst (speak world_down client_memo labas False) = Inr ()
   \<and> filter is_play (snd (snd (speak world_down client_memo labas False))) = [Play memo_url]
   \<and> \<not> list_ex is_browser_speak (snd (snd (speak world_down client0 labas False)))"
proof -
  have p: "probes_miss world_down client0 labas"
    by (simp add: probes_miss_def world_down_def)
  have m: "memo_miss world_down client0 labas"
    by (simp add: memo_miss_def client0_def)
  have s: "synthesis_fails world_down client0 labas False"
    by (simp add: synthesis_fails_def world_down_def)
  have d: "head_ok world_down = (\<lambda>u. None)" "playable world_down = (\<lambda>u. True)"
    by (simp_all add: world_down_def)
  have r: "resolved_url world_down client_memo labas False = Some memo_url"
    by (simp add: resolved_url_def d memo_labas)
  from speak_unavailable_iff [of world_down client0 labas False]
       speak_unavailable_iff [of world_down client_memo labas False] p m s r
  show ?thesis by (simp add: play_outcome_def d)
qed

text \<open>
  Both directions of the claim fail. With the memo entry and every probe and synthesis
  request failing, \<open>speak\<close> succeeds; with the first probe hitting and the audio not
  playing, \<open>speak\<close> ends in \<open>AudioUnavailable\<close>.
\<close>

theorem speak_unavailable_counterexample:
  "probes_miss world_down client_memo labas
   \<and> synthesis_fails world_down client_memo labas False
   \<and> fst (speak world_down client_memo labas False) = Inr ()
   \<and> head_ok world_mute (ttsUrl world_mute client0 labas) = Some True
   \<and> fst (speak world_mute client0 labas False) = Inl AudioUnavailable"
proof -
  have a: "probes_miss world_down client_memo labas"
    by (simp add: probes_miss_def world_down_def)
  have b: "synthesis_fails world_down client_memo labas False"
    by (simp add: synthesis_fails_def world_down_def)
  have c: "fst (speak world_down client_memo labas False) = Inr ()"
    by (simp add: speak_def checkCacheDirectly_def getAudioUrl_cases memo_labas playAudio_def
        unavailable_def)
       (simp add: world_down_def)
  have d: "head_ok world_mute (ttsUrl world_mute client0 labas) = Some True"
    by (simp add: world_mute_def)
  have e: "fst (speak world_mute client0 labas False) = Inl AudioUnavailable"
    by (simp add: speak_def checkCacheDirectly_def d playAudio_def unavailable_def)
       (simp add: world_mute_def)
  from a b c d e show ?thesis by simp
qed

end
